theory Spec2Isabelle
  imports Complex_Main
begin

unbundle bit_operations_syntax

section \<open>Double-precision values\<close>

text \<open>
  The arrays of \<^verbatim>\<open>pyscf/tdscf/uks.py\<close> hold numpy \<^verbatim>\<open>float64\<close> values. A value is a
  finite number, one of the two infinities, or NaN. Finite results are the exact real
  results (rounding, overflow and underflow are not modelled, and the two zeros are
  one); the special values follow IEEE 754 as numpy applies it with its default error
  state, where an invalid operation or a division by zero yields NaN or an infinity
  and raises nothing.
\<close>

datatype f64 = Fin real | PInf | NInf | NaN

fun is_finite :: "f64 \<Rightarrow> bool" where
  "is_finite (Fin a) = True"
| "is_finite _ = False"

fun f64_eq :: "f64 \<Rightarrow> f64 \<Rightarrow> bool" where
  "f64_eq (Fin a) (Fin b) = (a = b)"
| "f64_eq PInf PInf = True"
| "f64_eq NInf NInf = True"
| "f64_eq _ _ = False"

fun np_sqrt :: "f64 \<Rightarrow> f64" where
  "np_sqrt (Fin a) = (if 0 \<le> a then Fin (sqrt a) else NaN)"
| "np_sqrt PInf = PInf"
| "np_sqrt NInf = NaN"
| "np_sqrt NaN = NaN"

instantiation f64 :: "{plus, uminus, minus, times, inverse, ord}"
begin

fun plus_f64 :: "f64 \<Rightarrow> f64 \<Rightarrow> f64" where
  "Fin a + Fin b = Fin (a + b)"
| "NaN + _ = NaN"
| "_ + NaN = NaN"
| "PInf + NInf = NaN"
| "NInf + PInf = NaN"
| "PInf + _ = PInf"
| "_ + PInf = PInf"
| "NInf + _ = NInf"
| "_ + NInf = NInf"

fun uminus_f64 :: "f64 \<Rightarrow> f64" where
  "- Fin a = Fin (- a)"
| "- PInf = NInf"
| "- NInf = PInf"
| "- NaN = NaN"

definition minus_f64 :: "f64 \<Rightarrow> f64 \<Rightarrow> f64" where
  "(a::f64) - b = a + (- b)"

fun times_f64 :: "f64 \<Rightarrow> f64 \<Rightarrow> f64" where
  "Fin a * Fin b = Fin (a * b)"
| "NaN * _ = NaN"
| "_ * NaN = NaN"
| "PInf * Fin b = (if 0 < b then PInf else if b < 0 then NInf else NaN)"
| "NInf * Fin b = (if 0 < b then NInf else if b < 0 then PInf else NaN)"
| "Fin a * PInf = (if 0 < a then PInf else if a < 0 then NInf else NaN)"
| "Fin a * NInf = (if 0 < a then NInf else if a < 0 then PInf else NaN)"
| "PInf * PInf = PInf"
| "PInf * NInf = NInf"
| "NInf * PInf = NInf"
| "NInf * NInf = PInf"

fun divide_f64 :: "f64 \<Rightarrow> f64 \<Rightarrow> f64" where
  "Fin a div Fin b =
     (if b \<noteq> 0 then Fin (a / b)
      else if 0 < a then PInf else if a < 0 then NInf else NaN)"
| "NaN div _ = NaN"
| "_ div NaN = NaN"
| "Fin a div PInf = Fin 0"
| "Fin a div NInf = Fin 0"
| "PInf div Fin b = (if 0 \<le> b then PInf else NInf)"
| "NInf div Fin b = (if 0 \<le> b then NInf else PInf)"
| "PInf div PInf = NaN"
| "PInf div NInf = NaN"
| "NInf div PInf = NaN"
| "NInf div NInf = NaN"

definition inverse_f64 :: "f64 \<Rightarrow> f64" where
  "inverse (a::f64) = Fin 1 div a"

fun less_f64 :: "f64 \<Rightarrow> f64 \<Rightarrow> bool" where
  "Fin a < Fin b = (a < b)"
| "NaN < _ = False"
| "_ < NaN = False"
| "_ < NInf = False"
| "PInf < _ = False"
| "NInf < _ = True"
| "_ < PInf = True"

definition less_eq_f64 :: "f64 \<Rightarrow> f64 \<Rightarrow> bool" where
  "(a::f64) \<le> b = (a < b \<or> f64_eq a b)"

instance ..

end

section \<open>Errors\<close>

datatype error = RuntimeError | AssertionError | IndexError | ValueError

definition bind_err :: "error + 'a \<Rightarrow> ('a \<Rightarrow> error + 'b) \<Rightarrow> error + 'b" where
  "bind_err m f = (case m of Inl e \<Rightarrow> Inl e | Inr x \<Rightarrow> f x)"

section \<open>Excitation space\<close>

text \<open>\<^verbatim>\<open>numpy.where(cond)[0]\<close>: the positions of the true entries, found by one scan.\<close>

fun where_from :: "nat \<Rightarrow> bool list \<Rightarrow> nat list" where
  "where_from i [] = []"
| "where_from i (b # bs) = (if b then i # where_from (Suc i) bs else where_from (Suc i) bs)"

definition np_where :: "bool list \<Rightarrow> nat list" where
  "np_where bs = where_from 0 bs"

text \<open>\<^verbatim>\<open>occidx = numpy.where(mo_occ>0)[0]\<close> and \<^verbatim>\<open>viridx = numpy.where(mo_occ==0)[0]\<close>.\<close>

definition occidx :: "f64 list \<Rightarrow> nat list" where
  "occidx occ = np_where (map (\<lambda>n. Fin 0 < n) occ)"

definition viridx :: "f64 list \<Rightarrow> nat list" where
  "viridx occ = np_where (map (\<lambda>n. f64_eq n (Fin 0)) occ)"

section \<open>Arrays\<close>

text \<open>
  A one-dimensional array is a list. A two-dimensional array keeps its shape beside its
  elements in row-major order, as numpy does, so that an array with no rows still has a
  column count.
\<close>

record mat =
  nrows :: nat
  ncols :: nat
  elts :: "f64 list"

text \<open>
  \<^verbatim>\<open>a op b\<close> on two one-dimensional arrays: equal lengths go elementwise, a length-one
  operand is broadcast, anything else raises \<^verbatim>\<open>ValueError\<close>.
\<close>

definition broadcast2 :: "(f64 \<Rightarrow> f64 \<Rightarrow> f64) \<Rightarrow> f64 list \<Rightarrow> f64 list \<Rightarrow> error + f64 list" where
  "broadcast2 f xs ys =
     (if length xs = length ys then Inr (map2 f xs ys)
      else if length xs = 1 then Inr (map (f (hd xs)) ys)
      else if length ys = 1 then Inr (map (\<lambda>x. f x (hd ys)) xs)
      else Inl ValueError)"

text \<open>
  \<^verbatim>\<open>row op= t\<close> on a row of length \<open>n\<close>: the right-hand side must have length \<open>n\<close> or one.
\<close>

definition inplace2 :: "(f64 \<Rightarrow> f64 \<Rightarrow> f64) \<Rightarrow> f64 list \<Rightarrow> f64 list \<Rightarrow> error + f64 list" where
  "inplace2 f row t =
     (if length t = length row then Inr (map2 f row t)
      else if length t = 1 then Inr (map (\<lambda>r. f r (hd t)) row)
      else Inl ValueError)"

text \<open>\<^verbatim>\<open>a[idx]\<close> with an array of indices: \<^verbatim>\<open>IndexError\<close> when one is out of bounds.\<close>

definition take_idx :: "'a list \<Rightarrow> nat list \<Rightarrow> error + 'a list" where
  "take_idx xs idx =
     (if list_all (\<lambda>i. i < length xs) idx then Inr (map ((!) xs) idx) else Inl IndexError)"

text \<open>
  \<^verbatim>\<open>a[mask] = 0\<close> with a boolean mask: \<^verbatim>\<open>IndexError\<close> unless the mask is as long as the
  array.
\<close>

definition zero_masked :: "bool list \<Rightarrow> f64 list \<Rightarrow> error + f64 list" where
  "zero_masked forbid z =
     (if length forbid = length z then Inr (map2 (\<lambda>b v. if b then Fin 0 else v) forbid z)
      else Inl IndexError)"

text \<open>\<^verbatim>\<open>v.reshape(-1,1) op o\<close>, flattened: the rows run over the first array, the columns over the second.\<close>

definition outer :: "('a \<Rightarrow> 'a \<Rightarrow> 'b) \<Rightarrow> 'a list \<Rightarrow> 'a list \<Rightarrow> 'b list" where
  "outer f vs ws = concat (map (\<lambda>v. map (\<lambda>w. f v w) ws) vs)"

text \<open>\<^verbatim>\<open>v.reshape(r,c)\<close>: \<^verbatim>\<open>ValueError\<close> unless \<open>v\<close> has \<open>r * c\<close> elements.\<close>

definition reshape2 :: "f64 list \<Rightarrow> nat \<Rightarrow> nat \<Rightarrow> error + mat" where
  "reshape2 v r c =
     (if length v = r * c then Inr \<lparr>nrows = r, ncols = c, elts = v\<rparr> else Inl ValueError)"

text \<open>
  \<^verbatim>\<open>v.reshape(nz,-1)\<close> as a list of \<open>nz\<close> rows: \<^verbatim>\<open>ValueError\<close> when the column count cannot be
  inferred (\<open>nz = 0\<close>) or the size is not a multiple of \<open>nz\<close>.
\<close>

definition reshape_rows :: "f64 list \<Rightarrow> nat \<Rightarrow> error + f64 list list" where
  "reshape_rows v nz =
     (if nz = 0 \<or> length v mod nz \<noteq> 0 then Inl ValueError
      else Inr (map (\<lambda>i. take (length v div nz) (drop (i * (length v div nz)) v)) [0..<nz]))"

definition mat_scale :: "mat \<Rightarrow> f64 \<Rightarrow> mat" where
  "mat_scale m s = m\<lparr>elts := map (\<lambda>v. v * s) (elts m)\<rparr>"

definition entry :: "mat \<Rightarrow> nat \<Rightarrow> nat \<Rightarrow> f64" where
  "entry m i j = elts m ! (i * ncols m + j)"

definition mat_of :: "nat \<Rightarrow> nat \<Rightarrow> (nat \<Rightarrow> nat \<Rightarrow> f64) \<Rightarrow> mat" where
  "mat_of r c f =
     \<lparr>nrows = r, ncols = c, elts = concat (map (\<lambda>i. map (\<lambda>j. f i j) [0..<c]) [0..<r])\<rparr>"

definition fsum :: "f64 list \<Rightarrow> f64" where
  "fsum xs = foldl (+) (Fin 0) xs"

text \<open>\<^verbatim>\<open>m.T\<close>.\<close>

definition mat_T :: "mat \<Rightarrow> mat" where
  "mat_T m = mat_of (ncols m) (nrows m) (\<lambda>i j. entry m j i)"

text \<open>\<^verbatim>\<open>numpy.dot(a, b)\<close>: \<^verbatim>\<open>ValueError\<close> when the inner dimensions differ.\<close>

definition mat_dot :: "mat \<Rightarrow> mat \<Rightarrow> error + mat" where
  "mat_dot a b =
     (if ncols a = nrows b
      then Inr (mat_of (nrows a) (ncols b)
                  (\<lambda>i j. fsum (map (\<lambda>k. entry a i k * entry b k j) [0..<ncols a])))
      else Inl ValueError)"

text \<open>
  \<^verbatim>\<open>a + b\<close> on two-dimensional arrays with numpy's broadcasting: each dimension of an
  operand equals that of the result or is one.
\<close>

definition mat_add :: "mat \<Rightarrow> mat \<Rightarrow> error + mat" where
  "mat_add a b =
     (let r = (if nrows a = 1 then nrows b else nrows a);
          c = (if ncols a = 1 then ncols b else ncols a)
      in if (nrows b = r \<or> nrows b = 1) \<and> (ncols b = c \<or> ncols b = 1)
         then Inr (mat_of r c
                (\<lambda>i j. entry a (if nrows a = 1 then 0 else i) (if ncols a = 1 then 0 else j)
                       + entry b (if nrows b = 1 then 0 else i) (if ncols b = 1 then 0 else j)))
         else Inl ValueError)"

text \<open>
  \<^verbatim>\<open>dmvo[s,i] = m\<close> into a slot of shape \<open>(r, c)\<close>: the value is broadcast to the slot,
  \<^verbatim>\<open>ValueError\<close> when it cannot be.
\<close>

definition assign_slot :: "nat \<Rightarrow> nat \<Rightarrow> mat \<Rightarrow> error + mat" where
  "assign_slot r c m =
     (if (nrows m = r \<or> nrows m = 1) \<and> (ncols m = c \<or> ncols m = 1)
      then Inr (mat_of r c
             (\<lambda>i j. entry m (if nrows m = 1 then 0 else i) (if ncols m = 1 then 0 else j)))
      else Inl ValueError)"

text \<open>\<^verbatim>\<open>m[:,idx]\<close>: the columns at the given indices.\<close>

definition cols_at :: "mat \<Rightarrow> nat list \<Rightarrow> error + mat" where
  "cols_at m idx =
     (if list_all (\<lambda>j. j < ncols m) idx
      then Inr (mat_of (nrows m) (length idx) (\<lambda>i k. entry m i (idx ! k)))
      else Inl IndexError)"

text \<open>A loop body that may raise, run over a list from left to right.\<close>

fun map_err :: "('a \<Rightarrow> error + 'b) \<Rightarrow> 'a list \<Rightarrow> error + 'b list" where
  "map_err f [] = Inr []"
| "map_err f (x # xs) =
     (case f x of Inl err \<Rightarrow> Inl err
      | Inr y \<Rightarrow> (case map_err f xs of Inl err \<Rightarrow> Inl err | Inr ys \<Rightarrow> Inr (y # ys)))"

section \<open>The mean-field state and the solver object\<close>

text \<open>
  The attributes of the mean-field object \<^verbatim>\<open>mf\<close> that \<^verbatim>\<open>get_vind\<close> and \<^verbatim>\<open>kernel\<close> read. The
  pairs hold the alpha and the beta spin channel. \<open>mo_coeff_double\<close> is
  \<^verbatim>\<open>mo_coeff[0].dtype == numpy.double\<close>, \<open>mol_symmetry\<close> is \<^verbatim>\<open>mf.mol.symmetry\<close>.
\<close>

record mean_field =
  mo_coeff :: "mat \<times> mat"
  mo_coeff_double :: bool
  mo_energy :: "f64 list \<times> f64 list"
  mo_occ :: "f64 list \<times> f64 list"
  xc :: string
  mol_symmetry :: bool

text \<open>One entry of \<^verbatim>\<open>self.xy\<close>: \<^verbatim>\<open>((X_alpha, X_beta), (Y_alpha, Y_beta))\<close>.\<close>

type_synonym amplitudes = "(mat \<times> mat) \<times> (mat \<times> mat)"

text \<open>A spin-resolved batch of densities or potentials in the atomic-orbital basis.\<close>

type_synonym ao_batch = "mat list \<times> mat list"

type_synonym batch = "f64 list list"

type_synonym precond = "f64 list \<Rightarrow> f64 \<Rightarrow> f64 list \<Rightarrow> f64 list"

text \<open>
  The calls \<^verbatim>\<open>kernel\<close> makes on the solver object and on its collaborators, in the order
  they are made.
\<close>

datatype call = Check_sanity | Dump_flags | Get_vind | Get_precond | Init_guess
  | Davidson1 | Chkfile_save string

datatype saved = Energies "f64 list" | Amplitudes "amplitudes list"

text \<open>
  The solver object \<^verbatim>\<open>self\<close>. \<open>scf\<close> is \<^verbatim>\<open>self._scf\<close>; \<open>td_e\<close> and \<open>td_xy\<close> are \<^verbatim>\<open>self.e\<close> and
  \<^verbatim>\<open>self.xy\<close>; \<open>chk\<close> is the content of the checkpoint file \<^verbatim>\<open>self.chkfile\<close> names, by key;
  \<open>calls\<close> is the log of calls made so far.
\<close>

record tdobj =
  scf :: mean_field
  wfnsym :: "int option"
  singlet :: bool
  nstates :: nat
  conv_tol :: real
  lindep :: real
  max_space :: nat
  verbose :: int
  converged :: "bool option"
  td_e :: "f64 list option"
  td_xy :: "amplitudes list option"
  chk :: "string \<rightharpoonup> saved"
  calls :: "call list"

text \<open>
  The code this module imports and calls, none of it in this file:
  \<^verbatim>\<open>mf._numint.libxc.is_hybrid_xc\<close>, \<^verbatim>\<open>uhf_symm.get_orbsym\<close>, \<^verbatim>\<open>_gen_uhf_response\<close>,
  \<^verbatim>\<open>_ao2mo.nr_e2\<close>, the inherited \<^verbatim>\<open>get_precond\<close> and \<^verbatim>\<open>init_guess\<close>, and \<^verbatim>\<open>lib.davidson1\<close>,
  which takes the operator, the guess, the preconditioner and
  \<open>(tol, nroots, lindep, max_space, verbose)\<close> and returns the convergence flag, the
  eigenvalues and the eigenvectors.
\<close>

record collab =
  is_hybrid_xc :: "string \<Rightarrow> bool"
  get_orbsym :: "mean_field \<Rightarrow> int list \<times> int list"
  gen_uhf_response :: "mean_field \<Rightarrow> ao_batch \<Rightarrow> ao_batch"
  nr_e2 :: "mat list \<Rightarrow> mat \<Rightarrow> nat \<times> nat \<times> nat \<times> nat \<Rightarrow> f64 list"
  get_precond :: "f64 list \<Rightarrow> precond"
  init_guess :: "mean_field \<Rightarrow> nat \<Rightarrow> batch"
  davidson1 :: "(batch \<Rightarrow> error + batch) \<Rightarrow> batch \<Rightarrow> precond
                 \<Rightarrow> real \<times> nat \<times> real \<times> nat \<times> int \<Rightarrow> bool \<times> f64 list \<times> batch"

section \<open>Orbital energy differences\<close>

text \<open>
  \<^verbatim>\<open>mo_energy[s][viridx].reshape(-1,1) - mo_energy[s][occidx]\<close>, flattened: one entry for
  each (virtual, occupied) pair, the virtual index running slowest.
\<close>

definition e_ai_spin :: "f64 list \<Rightarrow> f64 list \<Rightarrow> error + f64 list" where
  "e_ai_spin en occ =
     bind_err (take_idx en (viridx occ)) (\<lambda>ev.
     bind_err (take_idx en (occidx occ)) (\<lambda>eo.
     Inr (outer (-) ev eo)))"

text \<open>\<^verbatim>\<open>numpy.hstack((e_ai_a.reshape(-1), e_ai_b.reshape(-1)))\<close>.\<close>

definition e_ai_raw :: "mean_field \<Rightarrow> error + f64 list" where
  "e_ai_raw mf =
     bind_err (e_ai_spin (fst (mo_energy mf)) (fst (mo_occ mf))) (\<lambda>e_ai_a.
     bind_err (e_ai_spin (snd (mo_energy mf)) (snd (mo_occ mf))) (\<lambda>e_ai_b.
     Inr (e_ai_a @ e_ai_b)))"

section \<open>Eigenpair reconstruction in \<^verbatim>\<open>kernel\<close>\<close>

text \<open>
  Modelled from the spec: \<^verbatim>\<open>lib.norm\<close> is not in this file; the spec uses it as the
  Euclidean norm \<open>||x||\<close>, the square root of the sum of the squares.
\<close>

definition lib_norm :: "f64 list \<Rightarrow> f64" where
  "lib_norm x = np_sqrt (fsum (map (\<lambda>v. v * v) x))"

text \<open>
  Lines 160 to 164: \<^verbatim>\<open>w = sqrt(w2[i])\<close>, \<^verbatim>\<open>zp = eai * z\<close>, \<^verbatim>\<open>zm = w/eai * z\<close>,
  \<^verbatim>\<open>x = (zp + zm) * .5\<close>, \<^verbatim>\<open>y = (zp - zm) * .5\<close>.
\<close>

definition xy_of :: "f64 list \<Rightarrow> f64 \<Rightarrow> f64 list \<Rightarrow> error + (f64 list \<times> f64 list)" where
  "xy_of eai w z =
     bind_err (broadcast2 (*) eai z) (\<lambda>zp.
     bind_err (broadcast2 (*) (map (\<lambda>d. w / d) eai) z) (\<lambda>zm.
     bind_err (broadcast2 (+) zp zm) (\<lambda>s.
     bind_err (broadcast2 (-) zp zm) (\<lambda>d.
     Inr (map (\<lambda>v. v * Fin (1/2)) s, map (\<lambda>v. v * Fin (1/2)) d)))))"

text \<open>\<^verbatim>\<open>lib.norm(x)**2 - lib.norm(y)**2\<close>.\<close>

definition norm_xy :: "f64 list \<Rightarrow> f64 list \<Rightarrow> f64" where
  "norm_xy x y = lib_norm x * lib_norm x - lib_norm y * lib_norm y"

text \<open>
  Lines 169 to 172: the four blocks of an accepted pair, each cut out of \<open>x\<close> or \<open>y\<close>,
  reshaped and scaled; \<open>dims\<close> is \<open>(nocca, nvira, noccb, nvirb)\<close>.
\<close>

definition blocks :: "nat \<times> nat \<times> nat \<times> nat \<Rightarrow> f64 list \<Rightarrow> f64 list \<Rightarrow> f64 \<Rightarrow> error + amplitudes" where
  "blocks dims x y nrm =
     (case dims of (nocca, nvira, noccb, nvirb) \<Rightarrow>
        bind_err (reshape2 (take (nocca * nvira) x) nvira nocca) (\<lambda>xa.
        bind_err (reshape2 (drop (nocca * nvira) x) nvirb noccb) (\<lambda>xb.
        bind_err (reshape2 (take (nocca * nvira) y) nvira nocca) (\<lambda>ya.
        bind_err (reshape2 (drop (nocca * nvira) y) nvirb noccb) (\<lambda>yb.
        Inr ((mat_scale xa nrm, mat_scale xb nrm), (mat_scale ya nrm, mat_scale yb nrm)))))))"

text \<open>
  The body of the loop of lines 157 to 172 for one eigenvalue \<^verbatim>\<open>w2[i]\<close> and its vector
  \<open>z\<close>: nothing when the pair is skipped, else the energy and the amplitudes appended to
  \<^verbatim>\<open>e\<close> and \<^verbatim>\<open>xy\<close>.
\<close>

definition recon_one ::
  "f64 list \<Rightarrow> nat \<times> nat \<times> nat \<times> nat \<Rightarrow> f64 \<Rightarrow> f64 list \<Rightarrow> error + (f64 \<times> amplitudes) option" where
  "recon_one eai dims w2i z =
     (if w2i < Fin 0 then Inr None
      else
        (case xy_of eai (np_sqrt w2i) z of
           Inl err \<Rightarrow> Inl err
         | Inr (x, y) \<Rightarrow>
             if Fin 0 < norm_xy x y then
               (case blocks dims x y (Fin 1 / np_sqrt (norm_xy x y)) of
                  Inl err \<Rightarrow> Inl err
                | Inr amp \<Rightarrow> Inr (Some (np_sqrt w2i, amp)))
             else Inr None))"

text \<open>
  The loop over \<^verbatim>\<open>enumerate(x1)\<close>; \<open>i\<close> is the index of the vector at the head of the list,
  \<open>acc\<close> the lists \<^verbatim>\<open>e\<close> and \<^verbatim>\<open>xy\<close> built so far. \<^verbatim>\<open>w2[i]\<close> raises \<^verbatim>\<open>IndexError\<close> past the end
  of \<^verbatim>\<open>w2\<close>.
\<close>

fun recon_loop ::
  "f64 list \<Rightarrow> nat \<times> nat \<times> nat \<times> nat \<Rightarrow> f64 list \<Rightarrow> nat \<Rightarrow> batch
     \<Rightarrow> f64 list \<times> amplitudes list \<Rightarrow> error + (f64 list \<times> amplitudes list)" where
  "recon_loop eai dims w2 i [] acc = Inr acc"
| "recon_loop eai dims w2 i (z # zs) acc =
     (if length w2 \<le> i then Inl IndexError
      else
        (case recon_one eai dims (w2 ! i) z of
           Inl err \<Rightarrow> Inl err
         | Inr None \<Rightarrow> recon_loop eai dims w2 (Suc i) zs acc
         | Inr (Some (w, amp)) \<Rightarrow>
             recon_loop eai dims w2 (Suc i) zs (fst acc @ [w], snd acc @ [amp])))"

text \<open>
  Lines 140 to 174: the index lists and the pair counts are taken again from the
  mean-field state, \<^verbatim>\<open>eai\<close> is the square root of the energy differences, and the loop
  starts from two empty lists.
\<close>

definition pair_dims :: "mean_field \<Rightarrow> nat \<times> nat \<times> nat \<times> nat" where
  "pair_dims mf =
     (length (occidx (fst (mo_occ mf))), length (viridx (fst (mo_occ mf))),
      length (occidx (snd (mo_occ mf))), length (viridx (snd (mo_occ mf))))"

definition kernel_eai :: "mean_field \<Rightarrow> error + f64 list" where
  "kernel_eai mf = bind_err (e_ai_raw mf) (\<lambda>eai. Inr (map np_sqrt eai))"

definition reconstruct :: "mean_field \<Rightarrow> f64 list \<Rightarrow> batch \<Rightarrow> error + (f64 list \<times> amplitudes list)" where
  "reconstruct mf w2 x1 =
     bind_err (kernel_eai mf) (\<lambda>eai. recon_loop eai (pair_dims mf) w2 0 x1 ([], []))"

section \<open>The operator built by \<^verbatim>\<open>get_vind\<close>\<close>

text \<open>
  Lines 72 and 73 for one spin channel:
  \<^verbatim>\<open>(orbsym[viridx].reshape(-1,1) ^ orbsym[occidx]) != wfnsym\<close>, flattened.
\<close>

definition sym_forbid_spin :: "int list \<Rightarrow> f64 list \<Rightarrow> int \<Rightarrow> error + bool list" where
  "sym_forbid_spin orbsym occ irrep =
     bind_err (take_idx orbsym (viridx occ)) (\<lambda>sv.
     bind_err (take_idx orbsym (occidx occ)) (\<lambda>so.
     Inr (outer (\<lambda>v w. v XOR w \<noteq> irrep) sv so)))"

text \<open>
  Lines 70 to 74: the mask exists only under \<^verbatim>\<open>wfnsym is not None and mol.symmetry\<close>.
\<close>

definition sym_forbid_of :: "collab \<Rightarrow> int option \<Rightarrow> mean_field \<Rightarrow> error + bool list option" where
  "sym_forbid_of c wsym mf =
     (case wsym of
        None \<Rightarrow> Inr None
      | Some irrep \<Rightarrow>
          if mol_symmetry mf then
            bind_err (sym_forbid_spin (fst (get_orbsym c mf)) (fst (mo_occ mf)) irrep) (\<lambda>fa.
            bind_err (sym_forbid_spin (snd (get_orbsym c mf)) (snd (mo_occ mf)) irrep) (\<lambda>fb.
            Inr (Some (fa @ fb))))
          else Inr None)"

text \<open>
  What \<^verbatim>\<open>get_vind\<close> computes and the closure \<^verbatim>\<open>vind\<close> captures. \<open>sym_forbid\<close> is \<open>None\<close> when no
  mask was built; \<open>coeff\<close> is the captured \<^verbatim>\<open>mo_coeff\<close>.
\<close>

record vind_env =
  sym_forbid :: "bool list option"
  e_ai :: "f64 list"
  dai :: "f64 list"
  edai :: "f64 list"
  hdiag :: "f64 list"
  nao :: nat
  nmo :: nat
  nocca :: nat
  noccb :: nat
  nvira :: nat
  nvirb :: nat
  orboa :: mat
  orbob :: mat
  orbva :: mat
  orbvb :: mat
  coeff :: "mat \<times> mat"
  vresp :: "ao_batch \<Rightarrow> ao_batch"

text \<open>Lines 48 to 85 of \<^verbatim>\<open>get_vind\<close>.\<close>

definition get_vind_env :: "collab \<Rightarrow> tdobj \<Rightarrow> mean_field \<Rightarrow> error + vind_env" where
  "get_vind_env c self mf =
     (if \<not> mo_coeff_double mf then Inl AssertionError
      else
        bind_err (cols_at (fst (mo_coeff mf)) (occidx (fst (mo_occ mf)))) (\<lambda>oa.
        bind_err (cols_at (snd (mo_coeff mf)) (occidx (snd (mo_occ mf)))) (\<lambda>ob.
        bind_err (cols_at (fst (mo_coeff mf)) (viridx (fst (mo_occ mf)))) (\<lambda>va.
        bind_err (cols_at (snd (mo_coeff mf)) (viridx (snd (mo_occ mf)))) (\<lambda>vb.
        bind_err (sym_forbid_of c (wfnsym self) mf) (\<lambda>forbid.
        bind_err (e_ai_raw mf) (\<lambda>e0.
        bind_err (case forbid of None \<Rightarrow> Inr e0 | Some fb \<Rightarrow> zero_masked fb e0) (\<lambda>e1.
        Inr \<lparr>sym_forbid = forbid,
             e_ai = e1,
             dai = map np_sqrt e1,
             edai = map2 (*) e1 (map np_sqrt e1),
             hdiag = map (\<lambda>v. v * v) e1,
             nao = nrows (fst (mo_coeff mf)),
             nmo = ncols (fst (mo_coeff mf)),
             nocca = length (occidx (fst (mo_occ mf))),
             noccb = length (occidx (snd (mo_occ mf))),
             nvira = length (viridx (fst (mo_occ mf))),
             nvirb = length (viridx (snd (mo_occ mf))),
             orboa = oa, orbob = ob, orbva = va, orbvb = vb,
             coeff = mo_coeff mf,
             vresp = gen_uhf_response c mf\<rparr>))))))))"

text \<open>
  Lines 89 to 91: with a mask, \<^verbatim>\<open>numpy.copy(zs)\<close> makes one two-dimensional array of the
  batch (\<^verbatim>\<open>ValueError\<close> when the rows differ in length) and the masked columns of the copy
  are set to zero; without one the batch is used as it came.
\<close>

definition np_copy :: "batch \<Rightarrow> error + batch" where
  "np_copy zs =
     (if list_all (\<lambda>z. length z = length (hd zs)) zs then Inr zs else Inl ValueError)"

definition masked_trial :: "vind_env \<Rightarrow> batch \<Rightarrow> error + batch" where
  "masked_trial env zs =
     (case sym_forbid env of
        None \<Rightarrow> Inr zs
      | Some fb \<Rightarrow> bind_err (np_copy zs) (\<lambda>zs1. map_err (zero_masked fb) zs1))"

text \<open>Line 94: \<^verbatim>\<open>z = dai * zs[i]\<close>.\<close>

definition scaled_trial :: "vind_env \<Rightarrow> f64 list \<Rightarrow> error + f64 list" where
  "scaled_trial env z = broadcast2 (*) (dai env) z"

text \<open>
  Lines 95 to 100 for one scaled vector: the two blocks, and for each spin
  \<^verbatim>\<open>dm = reduce(numpy.dot, (orbv, z, orbo.T))\<close> stored as \<^verbatim>\<open>dm + dm.T\<close> in a slot of shape
  \<open>(nao, nao)\<close>.
\<close>

definition trans_dm :: "nat \<Rightarrow> mat \<Rightarrow> mat \<Rightarrow> mat \<Rightarrow> error + mat" where
  "trans_dm n orbv z orbo =
     bind_err (mat_dot orbv z) (\<lambda>t.
     bind_err (mat_dot t (mat_T orbo)) (\<lambda>dm.
     bind_err (mat_add dm (mat_T dm)) (\<lambda>sym.
     assign_slot n n sym)))"

definition dm_pair :: "vind_env \<Rightarrow> f64 list \<Rightarrow> error + (mat \<times> mat)" where
  "dm_pair env z0 =
     bind_err (scaled_trial env z0) (\<lambda>z.
     bind_err (reshape2 (take (nocca env * nvira env) z) (nvira env) (nocca env)) (\<lambda>za.
     bind_err (reshape2 (drop (nocca env * nvira env) z) (nvirb env) (noccb env)) (\<lambda>zb.
     bind_err (trans_dm (nao env) (orbva env) za (orboa env)) (\<lambda>dma.
     bind_err (trans_dm (nao env) (orbvb env) zb (orbob env)) (\<lambda>dmb.
     Inr (dma, dmb))))))"

text \<open>Lines 107 and 108 for one row: \<^verbatim>\<open>hx[i] += edai * z\<close>, then \<^verbatim>\<open>hx[i] *= dai\<close>.\<close>

definition add_diag :: "vind_env \<Rightarrow> f64 list \<times> f64 list \<Rightarrow> error + f64 list" where
  "add_diag env hz =
     bind_err (broadcast2 (*) (edai env) (snd hz)) (\<lambda>t.
     bind_err (inplace2 (+) (fst hz) t) (\<lambda>h1.
     inplace2 (*) h1 (dai env)))"

text \<open>
  Lines 92 to 109 on the batch that lines 89 to 91 leave: the densities of all vectors,
  one call of the response, the two transformed blocks reshaped to \<open>nz\<close> rows and joined,
  and the diagonal term on each row.
\<close>

definition vind_core :: "collab \<Rightarrow> vind_env \<Rightarrow> batch \<Rightarrow> error + batch" where
  "vind_core c env zs =
     bind_err (map_err (dm_pair env) zs) (\<lambda>dms.
     bind_err (reshape_rows
         (nr_e2 c (fst (vresp env (map fst dms, map snd dms))) (fst (coeff env))
            (nocca env, nmo env, 0, nocca env)) (length zs)) (\<lambda>v1a.
     bind_err (reshape_rows
         (nr_e2 c (snd (vresp env (map fst dms, map snd dms))) (snd (coeff env))
            (noccb env, nmo env, 0, noccb env)) (length zs)) (\<lambda>v1b.
     map_err (add_diag env) (zip (map2 (@) v1a v1b) zs))))"

text \<open>The closure \<^verbatim>\<open>vind\<close>, lines 87 to 109.\<close>

definition vind :: "collab \<Rightarrow> vind_env \<Rightarrow> batch \<Rightarrow> error + batch" where
  "vind c env zs = bind_err (masked_trial env zs) (vind_core c env)"

text \<open>\<^verbatim>\<open>get_vind\<close> returns the closure and \<^verbatim>\<open>hdiag\<close>.\<close>

definition get_vind :: "collab \<Rightarrow> tdobj \<Rightarrow> mean_field \<Rightarrow> error + ((batch \<Rightarrow> error + batch) \<times> f64 list)" where
  "get_vind c self mf = bind_err (get_vind_env c self mf) (\<lambda>env. Inr (vind c env, hdiag env))"

section \<open>The driver \<^verbatim>\<open>kernel\<close>\<close>

definition logged :: "call \<Rightarrow> tdobj \<Rightarrow> tdobj" where
  "logged k self = self\<lparr>calls := calls self @ [k]\<rparr>"

definition chkfile_save :: "string \<Rightarrow> saved \<Rightarrow> tdobj \<Rightarrow> tdobj" where
  "chkfile_save key v self = logged (Chkfile_save key) (self\<lparr>chk := (chk self)(key \<mapsto> v)\<rparr>)"

text \<open>
  Lines 140 to 178, from the values \<^verbatim>\<open>davidson1\<close> returned: the flag is stored first, the
  eigenpairs are rebuilt, stored, saved under the two keys and returned. An error leaves
  the object as it was when the error was raised.
\<close>

definition finish :: "tdobj \<Rightarrow> bool \<times> f64 list \<times> batch \<Rightarrow> (error + (f64 list \<times> amplitudes list)) \<times> tdobj" where
  "finish self r =
     (case r of (conv, w2, x1) \<Rightarrow>
        (case reconstruct (scf self) w2 x1 of
           Inl err \<Rightarrow> (Inl err, self\<lparr>converged := Some conv\<rparr>)
         | Inr (e, xy) \<Rightarrow>
             (Inr (e, xy),
              chkfile_save ''tddft/xy'' (Amplitudes xy)
                (chkfile_save ''tddft/e'' (Energies e)
                   (self\<lparr>converged := Some conv, td_e := Some e, td_xy := Some xy\<rparr>)))))"

text \<open>
  Lines 122 to 138: the root count, the operator and the preconditioner, the guess and
  the call of \<^verbatim>\<open>davidson1\<close>.
\<close>

definition solve :: "collab \<Rightarrow> tdobj \<Rightarrow> batch option \<Rightarrow> nat option \<Rightarrow> (error + (f64 list \<times> amplitudes list)) \<times> tdobj" where
  "solve c self0 x0 nst =
     (let self1 = (case nst of None \<Rightarrow> self0 | Some n \<Rightarrow> self0\<lparr>nstates := n\<rparr>);
          self2 = logged Get_vind self1
      in case get_vind c self2 (scf self2) of
           Inl err \<Rightarrow> (Inl err, self2)
         | Inr (op, hd0) \<Rightarrow>
             (let self3 = logged Get_precond self2;
                  self4 = (case x0 of None \<Rightarrow> logged Init_guess self3 | Some g \<Rightarrow> self3);
                  guess = (case x0 of None \<Rightarrow> init_guess c (scf self3) (nstates self3) | Some g \<Rightarrow> g)
              in finish (logged Davidson1 self4)
                   (davidson1 c op guess (get_precond c hd0)
                      (conv_tol self4, nstates self1, lindep self4, max_space self4, verbose self4))))"

text \<open>\<^verbatim>\<open>kernel(self, x0=None, nstates=None)\<close>, lines 113 to 178.\<close>

definition kernel :: "collab \<Rightarrow> tdobj \<Rightarrow> batch option \<Rightarrow> nat option \<Rightarrow> (error + (f64 list \<times> amplitudes list)) \<times> tdobj" where
  "kernel c self x0 nst =
     (if is_hybrid_xc c (xc (scf self)) then (Inl RuntimeError, self)
      else solve c (logged Dump_flags (logged Check_sanity self)) x0 nst)"

section \<open>Properties\<close>

lemma in_where_from:
  "k \<in> set (where_from i bs) \<longleftrightarrow> i \<le> k \<and> k < i + length bs \<and> bs ! (k - i)"
proof (induction bs arbitrary: i k)
  case Nil
  show ?case by simp
next
  case (Cons b bs)
  note IH = Cons.IH [of _ "Suc i"]
  consider "k = i" | "i < k" | "k < i" by linarith
  then show ?case
  proof cases
    case 1
    have "i \<notin> set (where_from (Suc i) bs)"
      unfolding IH by simp
    with 1 show ?thesis by simp
  next
    case 2
    then have d: "k - i = Suc (k - Suc i)" by simp
    have "k \<in> set (where_from i (b # bs)) \<longleftrightarrow> k \<in> set (where_from (Suc i) bs)"
      using 2 by simp
    also have "\<dots> \<longleftrightarrow> Suc i \<le> k \<and> k < Suc i + length bs \<and> bs ! (k - Suc i)"
      by (rule IH)
    also have "\<dots> \<longleftrightarrow> i \<le> k \<and> k < i + length (b # bs) \<and> (b # bs) ! (k - i)"
      unfolding d using 2 by simp
    finally show ?thesis .
  next
    case 3
    have "k \<notin> set (where_from (Suc i) bs)"
      unfolding IH using 3 by simp
    with 3 show ?thesis by simp
  qed
qed

lemma set_where_from:
  "set (where_from i bs) = {k. i \<le> k \<and> k < i + length bs \<and> bs ! (k - i)}"
  using in_where_from [of _ i bs] by blast

lemma sorted_where_from: "sorted_wrt (<) (where_from i bs)"
proof (induction bs arbitrary: i)
  case Nil
  show ?case by simp
next
  case (Cons b bs)
  have "\<And>k. k \<in> set (where_from (Suc i) bs) \<Longrightarrow> i < k"
    unfolding in_where_from by simp
  with Cons.IH [of "Suc i"] show ?case by simp
qed

lemma set_np_where: "set (np_where bs) = {k. k < length bs \<and> bs ! k}"
  by (simp add: np_where_def set_where_from)

text \<open>
  C7. For every occupation vector the occupied list holds exactly the indices whose
  occupation is greater than 0 and the virtual list exactly the indices whose
  occupation equals 0, both in ascending orbital order; the two functions are total.
\<close>

theorem excitation_space_indices:
  "set (occidx occ) = {i. i < length occ \<and> Fin 0 < occ ! i}
   \<and> set (viridx occ) = {i. i < length occ \<and> f64_eq (occ ! i) (Fin 0)}
   \<and> sorted_wrt (<) (occidx occ) \<and> sorted_wrt (<) (viridx occ)"
proof -
  have o: "set (occidx occ) = {i. i < length occ \<and> Fin 0 < occ ! i}"
    unfolding occidx_def set_np_where by auto
  have v: "set (viridx occ) = {i. i < length occ \<and> f64_eq (occ ! i) (Fin 0)}"
    unfolding viridx_def set_np_where by auto
  have "sorted_wrt (<) (occidx occ)" "sorted_wrt (<) (viridx occ)"
    by (simp_all add: occidx_def viridx_def np_where_def sorted_where_from)
  with o v show ?thesis by blast
qed

end
